theory Spec2Isabelle
  imports Main "HOL-Library.Word"
begin

section \<open>Outcomes of a Go call\<close>

text \<open>
  A Go call either returns or panics. A panic carries a value: the string given to
  \<^verbatim>\<open>panic(fmt.Sprintf(...))\<close>, the error given to \<^verbatim>\<open>panic(err)\<close> (kept as its
  message), or a fault raised by the runtime or by package reflect.
\<close>

datatype runtime_fault = NilDereference | FieldIndexOutOfRange | NotAStruct

datatype panic_value = PanicString string | PanicError string | RuntimeError runtime_fault

datatype 'a outcome = Return 'a | Panic panic_value

section \<open>Type descriptors (package reflect)\<close>

text \<open>
  What the code asks of a \<^verbatim>\<open>reflect.Type\<close>: \<^verbatim>\<open>Name()\<close>, \<^verbatim>\<open>String()\<close>, and for a
  struct kind \<^verbatim>\<open>NumField()\<close> and \<^verbatim>\<open>Field(i)\<close>. A descriptor without a field list is
  a type of another kind. Of a \<^verbatim>\<open>reflect.StructField\<close> the code reads \<^verbatim>\<open>Name\<close>,
  \<^verbatim>\<open>PkgPath\<close> (through \<^verbatim>\<open>IsExported\<close>) and \<^verbatim>\<open>Type\<close>. Two types are the same type
  when their descriptors are equal.
\<close>

datatype gotype = GoType (TName: string) (TString: string) (struct_fields: "struct_field list option")
  and struct_field = StructField (FName: string) (PkgPath: string) (FType: gotype)

definition IsExported :: "struct_field \<Rightarrow> bool" where
  "IsExported f = (PkgPath f = [])"

definition pkg :: string where
  "pkg = ''github.com/JeffreyRichter/sumtype_test''"

definition string_ptr :: gotype where
  "string_ptr = GoType [] ''*string'' None"

definition ShapeKind_ptr :: gotype where
  "ShapeKind_ptr = GoType [] ''*sumtype_test.ShapeKind'' None"

definition int_ptr :: gotype where
  "int_ptr = GoType [] ''*int'' None"

definition shapeCaster_type :: gotype where
  "shapeCaster_type = GoType ''shapeCaster'' ''sumtype_test.shapeCaster'' (Some [])"

text \<open>\<^verbatim>\<open>sumtype.Caster[shape]\<close>, declared \<^verbatim>\<open>type Caster[Json any] struct{}\<close>.\<close>

definition Caster_type :: gotype where
  "Caster_type = GoType ''Caster[github.com/JeffreyRichter/sumtype_test.shape]''
     ''sumtype.Caster[github.com/JeffreyRichter/sumtype_test.shape]'' (Some [])"

text \<open>The four struct declarations of the example, field by field, in declaration order.\<close>

definition shape_type :: gotype where
  "shape_type = GoType ''shape'' ''sumtype_test.shape'' (Some
     [StructField ''shapeCaster'' pkg shapeCaster_type,
      StructField ''Color'' [] string_ptr,
      StructField ''Kind'' [] ShapeKind_ptr,
      StructField ''Radius'' [] int_ptr,
      StructField ''Width'' [] int_ptr,
      StructField ''Height'' [] int_ptr])"

definition Shape_type :: gotype where
  "Shape_type = GoType ''Shape'' ''sumtype_test.Shape'' (Some
     [StructField ''shapeCaster'' pkg shapeCaster_type,
      StructField ''Color'' [] string_ptr,
      StructField ''Kind'' [] ShapeKind_ptr,
      StructField ''_'' pkg int_ptr,
      StructField ''_'' pkg int_ptr,
      StructField ''_'' pkg int_ptr])"

definition CircleShape_type :: gotype where
  "CircleShape_type = GoType ''CircleShape'' ''sumtype_test.CircleShape'' (Some
     [StructField ''shapeCaster'' pkg shapeCaster_type,
      StructField ''Color'' [] string_ptr,
      StructField ''Kind'' [] ShapeKind_ptr,
      StructField ''Radius'' [] int_ptr,
      StructField ''_'' pkg int_ptr,
      StructField ''_'' pkg int_ptr])"

definition RectangleShape_type :: gotype where
  "RectangleShape_type = GoType ''RectangleShape'' ''sumtype_test.RectangleShape'' (Some
     [StructField ''shapeCaster'' pkg shapeCaster_type,
      StructField ''Color'' [] string_ptr,
      StructField ''Kind'' [] ShapeKind_ptr,
      StructField ''_'' pkg int_ptr,
      StructField ''Width'' [] int_ptr,
      StructField ''Height'' [] int_ptr])"

section \<open>Record storage, pointers and the heap\<close>

text \<open>
  The storage behind every view is the canonical struct \<^verbatim>\<open>shape\<close>. Each data field
  is a Go pointer: \<open>None\<close> is the nil pointer, \<open>Some v\<close> a pointer to a cell holding
  \<open>v\<close>. \<^verbatim>\<open>ShapeKind\<close> is a string type; Go's \<^verbatim>\<open>int\<close> is taken at 64 bits. The first
  field, the caster, has size zero and holds nothing. Every record has cells of its own:
  the one store through a field pointer, \<^verbatim>\<open>*s.Kind = tag\<close>, is seen by the record it
  is made on, not by a second record that was given the same \<^verbatim>\<open>*ShapeKind\<close>.
\<close>

record shape =
  Color :: "string option"
  Kind :: "string option"
  Radius :: "64 word option"
  Width :: "64 word option"
  Height :: "64 word option"

definition CircleShapeKind :: string where
  "CircleShapeKind = ''circle''"

definition RectangleShapeKind :: string where
  "RectangleShapeKind = ''rectangle''"

text \<open>
  A pointer is an address with the struct type it is read at; the heap gives the storage
  at each address. Every view of one record is a pointer to the same address.
\<close>

type_synonym addr = nat

datatype ptr = Ptr (ptr_type: gotype) (ptr_addr: addr)

type_synonym heap = "addr \<Rightarrow> shape"

type_synonym 'a go = "heap \<Rightarrow> 'a outcome \<times> heap"

definition go_return :: "'a \<Rightarrow> 'a go" where
  "go_return x = (\<lambda>h. (Return x, h))"

definition go_panic :: "panic_value \<Rightarrow> 'a go" where
  "go_panic p = (\<lambda>h. (Panic p, h))"

definition go_bind :: "'a go \<Rightarrow> ('a \<Rightarrow> 'b go) \<Rightarrow> 'b go" where
  "go_bind m f = (\<lambda>h. case m h of (Return x, h') \<Rightarrow> f x h' | (Panic p, h') \<Rightarrow> (Panic p, h'))"

section \<open>Casts\<close>

text \<open>\<^verbatim>\<open>func Cast[To any, From any](caster *Caster[From]) *To\<close>: the same address, read at \<open>To\<close>.\<close>

definition Cast :: "gotype \<Rightarrow> ptr \<Rightarrow> ptr" where
  "Cast To c = Ptr To (ptr_addr c)"

text \<open>\<^verbatim>\<open>func (c *Caster[Json]) Json() *Json\<close>, at \<^verbatim>\<open>Json = shape\<close>.\<close>

definition Json :: "ptr \<Rightarrow> ptr go" where
  "Json c = go_return (Cast shape_type c)"

text \<open>\<^verbatim>\<open>func (c *shapeCaster) caster() *sumtype.Caster[shape]\<close>\<close>

definition caster :: "ptr \<Rightarrow> ptr go" where
  "caster c = go_return (Ptr Caster_type (ptr_addr c))"

text \<open>\<^verbatim>\<open>func (c *shapeCaster) json() *shape { return c.caster().Json() }\<close>\<close>

definition json :: "ptr \<Rightarrow> ptr go" where
  "json c = go_bind (caster c) Json"

text \<open>Reading the field \<^verbatim>\<open>Kind\<close> through a pointer.\<close>

definition load_Kind :: "ptr \<Rightarrow> string option go" where
  "load_Kind p = (\<lambda>h. (Return (Kind (h (ptr_addr p))), h))"

text \<open>
  \<^verbatim>\<open>ensureKind\<close> panics with a formatted string when the kind is nil or differs;
  \<^verbatim>\<open>%v\<close> and \<^verbatim>\<open>%s\<close> print a \<^verbatim>\<open>ShapeKind\<close> as its characters.
\<close>

definition ensureKind :: "ptr \<Rightarrow> string \<Rightarrow> unit go" where
  "ensureKind c kind =
     go_bind (json c) (\<lambda>j. go_bind (load_Kind j) (\<lambda>k.
       case k of
         None \<Rightarrow> go_panic (PanicString (''can't cast shape from Kind=nil to Kind='' @ kind))
       | Some actual \<Rightarrow>
           if actual \<noteq> kind
           then go_panic (PanicString (''can't cast shape from Kind='' @ actual @ '' to Kind='' @ kind))
           else go_return ()))"

text \<open>\<^verbatim>\<open>func (c *shapeCaster) Shape() *Shape\<close>\<close>

definition Shape :: "ptr \<Rightarrow> ptr go" where
  "Shape c = go_bind (caster c) (\<lambda>cc. go_return (Cast Shape_type cc))"

text \<open>\<^verbatim>\<open>func (c *shapeCaster) Circle() *CircleShape\<close>\<close>

definition Circle :: "ptr \<Rightarrow> ptr go" where
  "Circle c = go_bind (ensureKind c CircleShapeKind) (\<lambda>_.
     go_bind (caster c) (\<lambda>cc. go_return (Cast CircleShape_type cc)))"

text \<open>\<^verbatim>\<open>func (c *shapeCaster) Rectangle() *RectangleShape\<close>\<close>

definition Rectangle :: "ptr \<Rightarrow> ptr go" where
  "Rectangle c = go_bind (ensureKind c RectangleShapeKind) (\<lambda>_.
     go_bind (caster c) (\<lambda>cc. go_return (Cast RectangleShape_type cc)))"

section \<open>Variant switch\<close>

text \<open>
  \<^verbatim>\<open>reflect.Value.Field(f).Set(reflect.Zero(...))\<close> on the canonical struct: position
  \<open>f\<close> becomes the nil pointer. Position 0 is the caster, which has no storage.
\<close>

definition zero_field :: "nat \<Rightarrow> shape \<Rightarrow> shape" where
  "zero_field f s =
     (if f = 1 then s\<lparr>Color := None\<rparr>
      else if f = 2 then s\<lparr>Kind := None\<rparr>
      else if f = 3 then s\<lparr>Radius := None\<rparr>
      else if f = 4 then s\<lparr>Width := None\<rparr>
      else if f = 5 then s\<lparr>Height := None\<rparr>
      else s)"

text \<open>
  One pass of the loop body for an unexported field of the kind struct:
  \<^verbatim>\<open>jsonFields.Field(f)\<close> panics outside the canonical struct's fields; \<^verbatim>\<open>CanSet\<close>
  holds for an exported field of the addressable canonical struct.
\<close>

definition zero_json_field :: "ptr \<Rightarrow> nat \<Rightarrow> unit go" where
  "zero_json_field j f =
     (case struct_fields (ptr_type j) of
        None \<Rightarrow> go_panic (RuntimeError NotAStruct)
      | Some jsonFields \<Rightarrow>
          if f < length jsonFields
          then (if IsExported (jsonFields ! f)
                then (\<lambda>h. (Return (), h(ptr_addr j := zero_field f (h (ptr_addr j)))))
                else go_return ())
          else go_panic (RuntimeError FieldIndexOutOfRange))"

text \<open>The loop \<^verbatim>\<open>for f := range kindFields.NumField()\<close>, from index \<open>f\<close> on.\<close>

fun zero_loop :: "ptr \<Rightarrow> struct_field list \<Rightarrow> nat \<Rightarrow> unit go" where
  "zero_loop j [] f = go_return ()"
| "zero_loop j (kindField # rest) f =
     (if \<not> IsExported kindField
      then go_bind (zero_json_field j f) (\<lambda>_. zero_loop j rest (Suc f))
      else zero_loop j rest (Suc f))"

text \<open>
  \<^verbatim>\<open>func (c *Caster[Json]) ZeroNonKindFields(ptrToKindStruct any)\<close>: the kind struct is
  the type the argument points to.
\<close>

definition ZeroNonKindFields :: "ptr \<Rightarrow> ptr \<Rightarrow> unit go" where
  "ZeroNonKindFields c ptrToKindStruct =
     go_bind (Json c) (\<lambda>j.
       case struct_fields (ptr_type ptrToKindStruct) of
         None \<Rightarrow> go_panic (RuntimeError NotAStruct)
       | Some kindFields \<Rightarrow> zero_loop j kindFields 0)"

text \<open>The assignment \<^verbatim>\<open>*s.Kind = v\<close>: a store through the pointer held in \<^verbatim>\<open>Kind\<close>.\<close>

definition store_Kind :: "ptr \<Rightarrow> string \<Rightarrow> unit go" where
  "store_Kind s v = (\<lambda>h.
     case Kind (h (ptr_addr s)) of
       None \<Rightarrow> (Panic (RuntimeError NilDereference), h)
     | Some _ \<Rightarrow> (Return (), h(ptr_addr s := (h (ptr_addr s))\<lparr>Kind := Some v\<rparr>)))"

text \<open>\<^verbatim>\<open>func (c *shapeCaster) SetCircle() *CircleShape\<close>\<close>

definition SetCircle :: "ptr \<Rightarrow> ptr go" where
  "SetCircle c =
     go_bind (Shape c) (\<lambda>s.
     go_bind (store_Kind s CircleShapeKind) (\<lambda>_.
     go_bind (caster c) (\<lambda>cc.
     go_bind (ZeroNonKindFields cc s) (\<lambda>_.
     Circle s))))"

text \<open>\<^verbatim>\<open>func (c *shapeCaster) SetRectangle() *RectangleShape\<close>\<close>

definition SetRectangle :: "ptr \<Rightarrow> ptr go" where
  "SetRectangle c =
     go_bind (Shape c) (\<lambda>s.
     go_bind (store_Kind s RectangleShapeKind) (\<lambda>_.
     go_bind (caster c) (\<lambda>cc.
     go_bind (ZeroNonKindFields cc s) (\<lambda>_.
     Rectangle s))))"

section \<open>Sample records\<close>

definition zero_shape :: shape where
  "zero_shape = \<lparr>Color = None, Kind = None, Radius = None, Width = None, Height = None\<rparr>"

text \<open>A heap in which every record is the zero value of \<^verbatim>\<open>shape\<close>.\<close>

definition heap0 :: heap where
  "heap0 = (\<lambda>_. zero_shape)"

text \<open>\<^verbatim>\<open>CircleShape{Kind: ptr(CircleShapeKind), Color: ptr("red"), Radius: ptr(1)}\<close>\<close>

definition red_circle :: shape where
  "red_circle = \<lparr>Color = Some ''red'', Kind = Some ''circle'', Radius = Some 1,
     Width = None, Height = None\<rparr>"

text \<open>\<^verbatim>\<open>RectangleShape{Kind: ptr(RectangleShapeKind), Color: ptr("green"), Width: ptr(15), Height: ptr(15)}\<close>\<close>

definition green_rectangle :: shape where
  "green_rectangle = \<lparr>Color = Some ''green'', Kind = Some ''rectangle'', Radius = None,
     Width = Some 15, Height = Some 15\<rparr>"

section \<open>The layout validator\<close>

text \<open>The verb \<^verbatim>\<open>%d\<close> of package fmt, for the field counts and the field index.\<close>

definition digit_char :: "nat \<Rightarrow> char" where
  "digit_char d = ''0123456789'' ! d"

fun decimal :: "nat \<Rightarrow> string" where
  "decimal n =
     (if n < 10 then [digit_char n]
      else decimal (n div 10) @ [digit_char (n mod 10)])"

declare decimal.simps [simp del]

text \<open>Calls that neither read nor write the heap: they return or panic.\<close>

definition out_bind :: "'a outcome \<Rightarrow> ('a \<Rightarrow> 'b outcome) \<Rightarrow> 'b outcome" where
  "out_bind m f = (case m of Return x \<Rightarrow> f x | Panic p \<Rightarrow> Panic p)"

text \<open>
  \<^verbatim>\<open>NumField\<close> "panics if the type's Kind is not Struct"; \<^verbatim>\<open>Field(i)\<close> panics also
  "if i is not in the range [0, NumField())" (src/reflect/reflect.go).
\<close>

definition NumField :: "gotype \<Rightarrow> nat outcome" where
  "NumField t =
     (case struct_fields t of
        None \<Rightarrow> Panic (RuntimeError NotAStruct)
      | Some fs \<Rightarrow> Return (length fs))"

definition Field :: "gotype \<Rightarrow> nat \<Rightarrow> struct_field outcome" where
  "Field t i =
     (case struct_fields t of
        None \<Rightarrow> Panic (RuntimeError NotAStruct)
      | Some fs \<Rightarrow> if i < length fs then Return (fs ! i) else Panic (RuntimeError FieldIndexOutOfRange))"

text \<open>The three \<^verbatim>\<open>fmt.Errorf\<close> messages; an error value is kept as its message.\<close>

definition first_field_error :: "gotype \<Rightarrow> gotype \<Rightarrow> string" where
  "first_field_error mainStruct c =
     ''first field of struct '' @ TName mainStruct @
     '' must be a type whose underlying type is '' @ TString c"

definition field_count_error :: "gotype \<Rightarrow> nat \<Rightarrow> gotype \<Rightarrow> nat \<Rightarrow> string" where
  "field_count_error mainStruct mn otherStructType on =
     ''structs have different number of fields: '' @ TName mainStruct @ ''='' @ decimal mn @
     '' vs '' @ TName otherStructType @ ''='' @ decimal on"

definition field_type_error :: "nat \<Rightarrow> gotype \<Rightarrow> struct_field \<Rightarrow> gotype \<Rightarrow> struct_field \<Rightarrow> string" where
  "field_type_error f mainStruct mf otherStructType otf =
     ''structs have incompatible field #'' @ decimal f @ '': '' @
     TName mainStruct @ ''.'' @ FName mf @ '' ('' @ TString (FType mf) @ '') vs '' @
     TName otherStructType @ ''.'' @ FName otf @ '' ('' @ TString (FType otf) @ '')''"

text \<open>The inner loop \<^verbatim>\<open>for f := range mainStruct.NumField()\<close>, over the indices still to visit.\<close>

fun compare_fields :: "gotype \<Rightarrow> gotype \<Rightarrow> nat list \<Rightarrow> string option outcome" where
  "compare_fields mainStruct otherStructType [] = Return None"
| "compare_fields mainStruct otherStructType (f # fs) =
     out_bind (Field mainStruct f) (\<lambda>mf.
     out_bind (Field otherStructType f) (\<lambda>otf.
       if FType mf \<noteq> FType otf
       then Return (Some (field_type_error f mainStruct mf otherStructType otf))
       else compare_fields mainStruct otherStructType fs))"

text \<open>
  The outer loop \<^verbatim>\<open>for _, otherStruct := range structs\<close>; each element is given as
  \<^verbatim>\<open>reflect.TypeOf(otherStruct)\<close>.
\<close>

fun validate_structs :: "gotype \<Rightarrow> gotype list \<Rightarrow> string option outcome" where
  "validate_structs mainStruct [] = Return None"
| "validate_structs mainStruct (otherStructType # rest) =
     out_bind (NumField mainStruct) (\<lambda>mn.
     out_bind (NumField otherStructType) (\<lambda>on.
       if mn \<noteq> on
       then Return (Some (field_count_error mainStruct mn otherStructType on))
       else out_bind (compare_fields mainStruct otherStructType [0..<mn]) (\<lambda>err.
         case err of
           Some e \<Rightarrow> Return (Some e)
         | None \<Rightarrow> validate_structs mainStruct rest)))"

text \<open>
  \<^verbatim>\<open>func (c Caster[Json]) validateStructFields(structs ...any) error\<close>. The parameters
  \<open>c\<close> and \<open>mainStruct\<close> are \<^verbatim>\<open>reflect.TypeOf(c)\<close> and \<^verbatim>\<open>reflect.TypeFor[Json]()\<close>;
  \<open>ConvertibleTo\<close> is the method of \<^verbatim>\<open>reflect.Type\<close>, taken as a parameter.
\<close>

definition validateStructFields ::
  "(gotype \<Rightarrow> gotype \<Rightarrow> bool) \<Rightarrow> gotype \<Rightarrow> gotype \<Rightarrow> gotype list \<Rightarrow> string option outcome" where
  "validateStructFields ConvertibleTo c mainStruct structs =
     out_bind (Field mainStruct 0) (\<lambda>first.
       let underlyingType = c; firstFieldType = FType first in
       if \<not> ConvertibleTo firstFieldType underlyingType \<or> \<not> ConvertibleTo underlyingType firstFieldType
       then Return (Some (first_field_error mainStruct c))
       else validate_structs mainStruct structs)"

text \<open>\<^verbatim>\<open>func (c Caster[Json]) ValidateStructFields(panicOnError bool, structs ...any) error\<close>\<close>

definition ValidateStructFields ::
  "(gotype \<Rightarrow> gotype \<Rightarrow> bool) \<Rightarrow> gotype \<Rightarrow> gotype \<Rightarrow> bool \<Rightarrow> gotype list \<Rightarrow> string option outcome" where
  "ValidateStructFields ConvertibleTo c mainStruct panicOnError structs =
     out_bind (validateStructFields ConvertibleTo c mainStruct structs) (\<lambda>err.
       case err of
         Some e \<Rightarrow> if panicOnError then Panic (PanicError e) else Return (Some e)
       | None \<Rightarrow> Return None)"





section \<open>The JSON adapter\<close>

text \<open>
  Modelled from the spec: the JSON encoder and decoder. The code calls
  \<^verbatim>\<open>json.Marshal\<close> and \<^verbatim>\<open>json.Unmarshal\<close> of package encoding/json/v2, which is not
  part of the repository. The spec (4.5, 6) asks of them: "serialize this record to a
  textual object; parse a textual object into this record". A JSON text is handled as the
  document it denotes, an object being the list of its members in the order of the text.
\<close>

datatype jvalue =
    JNull
  | JBool bool
  | JNumber int
  | JString string
  | JArray "jvalue list"
  | JObject "(string \<times> jvalue) list"

text \<open>
  The keys of the canonical struct \<^verbatim>\<open>shape\<close>, from its field tags
  (\<^verbatim>\<open>json:"color,omitempty"\<close>, ...), in declaration order, each with the position of
  its field.
\<close>

definition json_keys :: "(string \<times> nat) list" where
  "json_keys = [(''color'', 1), (''kind'', 2), (''radius'', 3), (''width'', 4), (''height'', 5)]"

text \<open>The JSON value of the field at a position: none for a nil pointer.\<close>

definition field_json :: "nat \<Rightarrow> shape \<Rightarrow> jvalue option" where
  "field_json f s =
     (if f = 1 then map_option JString (Color s)
      else if f = 2 then map_option JString (Kind s)
      else if f = 3 then map_option (\<lambda>w. JNumber (sint w)) (Radius s)
      else if f = 4 then map_option (\<lambda>w. JNumber (sint w)) (Width s)
      else if f = 5 then map_option (\<lambda>w. JNumber (sint w)) (Height s)
      else None)"

text \<open>
  Modelled from the spec: the encoding of the canonical struct, which json.Marshal (not in
  the repository) computes: "encoding fields in the canonical field order, omitting any
  field whose value is absent".
\<close>

definition encode_shape :: "shape \<Rightarrow> jvalue" where
  "encode_shape s =
     JObject (List.map_filter (\<lambda>(k, f). map_option (Pair k) (field_json f s)) json_keys)"

text \<open>
  \<^verbatim>\<open>func (c *Caster[Json]) MarshalJSON() ([]byte, error) { return json.Marshal(c.Json()) }\<close>.
  The bytes are given as their document; the error is always nil. The methods
  \<^verbatim>\<open>MarshalJSON\<close> of the variants take their receiver by value and call this one on
  the copy.
\<close>

definition MarshalJSON :: "ptr \<Rightarrow> jvalue go" where
  "MarshalJSON c = go_bind (Json c) (\<lambda>j h. (Return (encode_shape (h (ptr_addr j))), h))"

text \<open>
  Modelled from the spec: one member read by json.Unmarshal (not in the repository) into
  the field at position \<open>f\<close>. A string goes to a string field, an integer that fits
  \<^verbatim>\<open>int\<close> to an integer field, \<^verbatim>\<open>null\<close> makes the pointer nil; any other value is a
  type error (\<open>None\<close>). Nothing but that field is written: "the discriminator field, if
  present in the text, is set without triggering a Variant Switch scrub".
\<close>

datatype json_error = NotAnObject | WrongType string

definition decode_string :: "jvalue \<Rightarrow> string option option" where
  "decode_string v =
     (case v of JString x \<Rightarrow> Some (Some x) | JNull \<Rightarrow> Some None | _ \<Rightarrow> None)"

definition decode_int :: "jvalue \<Rightarrow> 64 word option option" where
  "decode_int v =
     (case v of
        JNumber n \<Rightarrow> if - (2 ^ 63) \<le> n \<and> n < 2 ^ 63 then Some (Some (word_of_int n)) else None
      | JNull \<Rightarrow> Some None
      | _ \<Rightarrow> None)"

definition decode_field :: "nat \<Rightarrow> jvalue \<Rightarrow> shape \<Rightarrow> shape option" where
  "decode_field f v s =
     (if f = 1 then map_option (\<lambda>x. s\<lparr>Color := x\<rparr>) (decode_string v)
      else if f = 2 then map_option (\<lambda>x. s\<lparr>Kind := x\<rparr>) (decode_string v)
      else if f = 3 then map_option (\<lambda>x. s\<lparr>Radius := x\<rparr>) (decode_int v)
      else if f = 4 then map_option (\<lambda>x. s\<lparr>Width := x\<rparr>) (decode_int v)
      else if f = 5 then map_option (\<lambda>x. s\<lparr>Height := x\<rparr>) (decode_int v)
      else None)"

text \<open>
  Modelled from the spec: the members of the object are read in the order of the text,
  each "directly into canonical storage"; "unknown/extra keys ignored". The first type
  error ends the call with an error.
\<close>

fun decode_members :: "ptr \<Rightarrow> (string \<times> jvalue) list \<Rightarrow> json_error option go" where
  "decode_members j [] h = (Return None, h)"
| "decode_members j ((k, v) # ms) h =
     (case map_of json_keys k of
        None \<Rightarrow> decode_members j ms h
      | Some f \<Rightarrow>
          (case decode_field f v (h (ptr_addr j)) of
             None \<Rightarrow> (Return (Some (WrongType k)), h)
           | Some s' \<Rightarrow> decode_members j ms (h(ptr_addr j := s'))))"

text \<open>
  \<^verbatim>\<open>func (c *Caster[Json]) UnmarshalJSON(data []byte) error { return json.Unmarshal(data, c.Json()) }\<close>.
  The data is given as its document; the spec describes the wire value as an object, and
  a document of another kind is reported as an error.
\<close>

definition UnmarshalJSON :: "ptr \<Rightarrow> jvalue \<Rightarrow> json_error option go" where
  "UnmarshalJSON c data =
     go_bind (Json c) (\<lambda>j.
       case data of
         JObject ms \<Rightarrow> decode_members j ms
       | _ \<Rightarrow> go_return (Some NotAnObject))"

text \<open>
  The words of the claims about the adapter. A member is acceptable when its key is
  unknown or its value has the JSON type of the field. A variant type owns the positions
  it exports; a record is populated as a variant when its discriminator is the variant's
  tag and every data position the variant does not own is nil.
\<close>

definition value_ok :: "nat \<Rightarrow> jvalue \<Rightarrow> bool" where
  "value_ok f v =
     (if f = 1 \<or> f = 2 then decode_string v \<noteq> None
      else if f = 3 \<or> f = 4 \<or> f = 5 then decode_int v \<noteq> None
      else False)"

definition member_ok :: "string \<times> jvalue \<Rightarrow> bool" where
  "member_ok m = (case map_of json_keys (fst m) of None \<Rightarrow> True | Some f \<Rightarrow> value_ok f (snd m))"

definition owns :: "gotype \<Rightarrow> nat \<Rightarrow> bool" where
  "owns variant f =
     (case struct_fields variant of
        None \<Rightarrow> False
      | Some fs \<Rightarrow> f < length fs \<and> IsExported (fs ! f))"

definition populated_as :: "gotype \<Rightarrow> string \<Rightarrow> shape \<Rightarrow> bool" where
  "populated_as variant tag s =
     (Kind s = Some tag \<and> list_all (\<lambda>f. owns variant f \<or> field_json f s = None) [1, 2, 3, 4, 5])"

subsection \<open>Wire texts\<close>

text \<open>
  Modelled from the spec: the text of a document, as the encoder (not in the repository)
  writes it without indentation. Quotes and backslashes in strings are escaped.
\<close>

definition render_int :: "int \<Rightarrow> string" where
  "render_int i = (if i < 0 then CHR ''-'' # decimal (nat (- i)) else decimal (nat i))"

definition escape_char :: "char \<Rightarrow> string" where
  \<open>escape_char c =
     (if c = CHR ''"'' then [CHR 0x5C, CHR ''"'']
      else if c = CHR 0x5C then [CHR 0x5C, CHR 0x5C]
      else [c])\<close>

definition render_string :: "string \<Rightarrow> string" where
  \<open>render_string s = CHR ''"'' # concat (map escape_char s) @ [CHR ''"'']\<close>

fun join :: "string \<Rightarrow> string list \<Rightarrow> string" where
  "join sep [] = []"
| "join sep [x] = x"
| "join sep (x # y # ys) = x @ sep @ join sep (y # ys)"

fun render :: "jvalue \<Rightarrow> string" where
  "render JNull = ''null''"
| "render (JBool b) = (if b then ''true'' else ''false'')"
| "render (JNumber i) = render_int i"
| "render (JString s) = render_string s"
| "render (JArray vs) = ''['' @ join '','' (map render vs) @ '']''"
| "render (JObject ms) =
     ''{'' @ join '','' (map (\<lambda>m. render_string (fst m) @ '':'' @ render (snd m)) ms) @ ''}''"

text \<open>
  Modelled from the spec: the document of a text, as the decoder (not in the repository)
  reads it. The reader covers objects, arrays, strings with the two-character escapes,
  integer numbers, \<^verbatim>\<open>true\<close>, \<^verbatim>\<open>false\<close> and \<^verbatim>\<open>null\<close>, with white space between
  tokens; any other text has no document. The first argument of \<open>parse_value\<close> bounds the
  nesting and the number of members, and \<open>parse_json\<close> gives it the length of the text.
\<close>

definition is_ws :: "char \<Rightarrow> bool" where
  "is_ws c = (c = CHR 0x20 \<or> c = CHR 0x09 \<or> c = CHR 0x0A \<or> c = CHR 0x0D)"

definition skip_ws :: "string \<Rightarrow> string" where
  "skip_ws = dropWhile is_ws"

definition unescape :: "char \<Rightarrow> char option" where
  \<open>unescape e =
     (if e = CHR ''"'' then Some (CHR ''"'')
      else if e = CHR 0x5C then Some (CHR 0x5C)
      else if e = CHR ''/'' then Some (CHR ''/'')
      else if e = CHR ''b'' then Some (CHR 0x08)
      else if e = CHR ''f'' then Some (CHR 0x0C)
      else if e = CHR ''n'' then Some (CHR 0x0A)
      else if e = CHR ''r'' then Some (CHR 0x0D)
      else if e = CHR ''t'' then Some (CHR 0x09)
      else None)\<close>

fun parse_string_body :: "string \<Rightarrow> (string \<times> string) option" where
  "parse_string_body [] = None"
| \<open>parse_string_body (c # cs) =
     (if c = CHR ''"'' then Some ([], cs)
      else if c = CHR 0x5C then
        (case cs of
           [] \<Rightarrow> None
         | e # cs' \<Rightarrow>
             (case unescape e of
                None \<Rightarrow> None
              | Some d \<Rightarrow> map_option (\<lambda>(s, r). (d # s, r)) (parse_string_body cs')))
      else if of_char c < (32::nat) then None
      else map_option (\<lambda>(s, r). (c # s, r)) (parse_string_body cs))\<close>

definition is_digit :: "char \<Rightarrow> bool" where
  "is_digit c = (c \<in> set ''0123456789'')"

definition digit_value :: "char \<Rightarrow> nat" where
  "digit_value c = of_char c - 48"

definition digits_value :: "string \<Rightarrow> nat" where
  "digits_value ds = foldl (\<lambda>n c. 10 * n + digit_value c) 0 ds"

definition parse_number :: "string \<Rightarrow> (jvalue \<times> string) option" where
  "parse_number cs =
     (let negative = (cs \<noteq> [] \<and> hd cs = CHR ''-'');
          body = (if negative then tl cs else cs);
          ds = takeWhile is_digit body;
          rest = dropWhile is_digit body
      in if ds = [] \<or> (length ds > 1 \<and> hd ds = CHR ''0'') then None
         else if rest \<noteq> [] \<and> hd rest \<in> set ''.eE'' then None
         else Some (JNumber (if negative then - int (digits_value ds) else int (digits_value ds)), rest))"

definition parse_literal :: "string \<Rightarrow> (jvalue \<times> string) option" where
  "parse_literal cs =
     (if take 4 cs = ''null'' then Some (JNull, drop 4 cs)
      else if take 4 cs = ''true'' then Some (JBool True, drop 4 cs)
      else if take 5 cs = ''false'' then Some (JBool False, drop 5 cs)
      else None)"

fun parse_value :: "nat \<Rightarrow> string \<Rightarrow> (jvalue \<times> string) option"
  and parse_members :: "nat \<Rightarrow> string \<Rightarrow> ((string \<times> jvalue) list \<times> string) option"
  and parse_elements :: "nat \<Rightarrow> string \<Rightarrow> (jvalue list \<times> string) option" where
  "parse_value 0 cs = None"
| \<open>parse_value (Suc n) cs =
     (case cs of
        [] \<Rightarrow> None
      | c # r \<Rightarrow>
          if c = CHR ''"'' then map_option (\<lambda>(s, r'). (JString s, r')) (parse_string_body r)
          else if c = CHR ''{'' then
            (if skip_ws r \<noteq> [] \<and> hd (skip_ws r) = CHR ''}'' then Some (JObject [], tl (skip_ws r))
             else map_option (\<lambda>(ms, r'). (JObject ms, r')) (parse_members n (skip_ws r)))
          else if c = CHR ''['' then
            (if skip_ws r \<noteq> [] \<and> hd (skip_ws r) = CHR '']'' then Some (JArray [], tl (skip_ws r))
             else map_option (\<lambda>(vs, r'). (JArray vs, r')) (parse_elements n (skip_ws r)))
          else if c = CHR ''-'' \<or> is_digit c then parse_number cs
          else parse_literal cs)\<close>
| "parse_members 0 cs = None"
| \<open>parse_members (Suc n) cs =
     (case cs of
        [] \<Rightarrow> None
      | c # r \<Rightarrow>
          if c \<noteq> CHR ''"'' then None
          else
            (case parse_string_body r of
               None \<Rightarrow> None
             | Some (k, r1) \<Rightarrow>
                 (case skip_ws r1 of
                    [] \<Rightarrow> None
                  | c1 # r2 \<Rightarrow>
                      if c1 \<noteq> CHR '':'' then None
                      else
                        (case parse_value n (skip_ws r2) of
                           None \<Rightarrow> None
                         | Some (v, r3) \<Rightarrow>
                             (case skip_ws r3 of
                                [] \<Rightarrow> None
                              | c2 # r4 \<Rightarrow>
                                  if c2 = CHR ''}'' then Some ([(k, v)], r4)
                                  else if c2 = CHR '','' then
                                    map_option (\<lambda>(ms, r5). ((k, v) # ms, r5)) (parse_members n (skip_ws r4))
                                  else None)))))\<close>
| "parse_elements 0 cs = None"
| \<open>parse_elements (Suc n) cs =
     (case parse_value n cs of
        None \<Rightarrow> None
      | Some (v, r1) \<Rightarrow>
          (case skip_ws r1 of
             [] \<Rightarrow> None
           | c # r2 \<Rightarrow>
               if c = CHR '']'' then Some ([v], r2)
               else if c = CHR '','' then
                 map_option (\<lambda>(vs, r3). (v # vs, r3)) (parse_elements n (skip_ws r2))
               else None))\<close>

definition parse_json :: "string \<Rightarrow> jvalue option" where
  "parse_json text =
     (case parse_value (length text) (skip_ws text) of
        None \<Rightarrow> None
      | Some (v, rest) \<Rightarrow> if skip_ws rest = [] then Some v else None)"

section \<open>The end-to-end scenario\<close>

text \<open>
  The text received, the record after the switch and after the two assignments
  \<^verbatim>\<open>r.Width = ptr(10)\<close>, \<^verbatim>\<open>r.Height = ptr(20)\<close>, the text the claim expects and the
  text with the keys in the declaration order of \<^verbatim>\<open>shape\<close>.
\<close>

definition wire_circle :: string where
  \<open>wire_circle = ''{"kind":"circle","color":"red","radius":1}''\<close>

definition switched :: shape where
  "switched = \<lparr>Color = Some ''red'', Kind = Some ''rectangle'', Radius = None,
     Width = None, Height = None\<rparr>"

definition resized :: shape where
  "resized = switched\<lparr>Width := Some 10, Height := Some 20\<rparr>"

definition wire_kind_first :: string where
  \<open>wire_kind_first = ''{"kind":"rectangle","color":"red","width":10,"height":20}''\<close>

definition wire_color_first :: string where
  \<open>wire_color_first = ''{"color":"red","kind":"rectangle","width":10,"height":20}''\<close>

section \<open>The guarded reads\<close>

lemmas go_defs = go_return_def go_panic_def go_bind_def

lemmas cast_defs = Cast_def Json_def caster_def json_def load_Kind_def Shape_def

lemma ensureKind_eq:
  "ensureKind c kind h =
     (case Kind (h (ptr_addr c)) of
        None \<Rightarrow> (Panic (PanicString (''can't cast shape from Kind=nil to Kind='' @ kind)), h)
      | Some actual \<Rightarrow>
          if actual \<noteq> kind
          then (Panic (PanicString (''can't cast shape from Kind='' @ actual @ '' to Kind='' @ kind)), h)
          else (Return (), h))"
  by (simp add: ensureKind_def go_defs cast_defs split: option.splits)

lemma Circle_eq:
  "Circle c h =
     (case Kind (h (ptr_addr c)) of
        None \<Rightarrow> (Panic (PanicString ''can't cast shape from Kind=nil to Kind=circle''), h)
      | Some actual \<Rightarrow>
          if actual \<noteq> CircleShapeKind
          then (Panic (PanicString (''can't cast shape from Kind='' @ actual @ '' to Kind=circle'')), h)
          else (Return (Ptr CircleShape_type (ptr_addr c)), h))"
  by (simp add: Circle_def ensureKind_eq go_defs cast_defs CircleShapeKind_def split: option.splits)

lemma Rectangle_eq:
  "Rectangle c h =
     (case Kind (h (ptr_addr c)) of
        None \<Rightarrow> (Panic (PanicString ''can't cast shape from Kind=nil to Kind=rectangle''), h)
      | Some actual \<Rightarrow>
          if actual \<noteq> RectangleShapeKind
          then (Panic (PanicString (''can't cast shape from Kind='' @ actual @ '' to Kind=rectangle'')), h)
          else (Return (Ptr RectangleShape_type (ptr_addr c)), h))"
  by (simp add: Rectangle_def ensureKind_eq go_defs cast_defs RectangleShapeKind_def split: option.splits)

text \<open>
  C2. A guarded read \<^verbatim>\<open>Circle()\<close> or \<^verbatim>\<open>Rectangle()\<close> of any record fails with the
  "Kind=nil" message when the stored discriminator is nil; fails with a message carrying
  the actual and the expected tag when the discriminator is set to another tag; and
  otherwise returns the same address read at the requested variant type. Whenever it
  returns, the returned view's type is the variant named by the stored discriminator.
\<close>

theorem guarded_read:
  "(Kind (h (ptr_addr c)) = None \<longrightarrow>
      Circle c h = (Panic (PanicString ''can't cast shape from Kind=nil to Kind=circle''), h) \<and>
      Rectangle c h = (Panic (PanicString ''can't cast shape from Kind=nil to Kind=rectangle''), h))
   \<and> (\<forall>actual. Kind (h (ptr_addr c)) = Some actual \<and> actual \<noteq> CircleShapeKind \<longrightarrow>
      Circle c h =
        (Panic (PanicString (''can't cast shape from Kind='' @ actual @ '' to Kind='' @ CircleShapeKind)), h))
   \<and> (\<forall>actual. Kind (h (ptr_addr c)) = Some actual \<and> actual \<noteq> RectangleShapeKind \<longrightarrow>
      Rectangle c h =
        (Panic (PanicString (''can't cast shape from Kind='' @ actual @ '' to Kind='' @ RectangleShapeKind)), h))
   \<and> (Kind (h (ptr_addr c)) = Some CircleShapeKind \<longrightarrow>
      Circle c h = (Return (Cast CircleShape_type c), h))
   \<and> (Kind (h (ptr_addr c)) = Some RectangleShapeKind \<longrightarrow>
      Rectangle c h = (Return (Cast RectangleShape_type c), h))
   \<and> (\<forall>v h'. Circle c h = (Return v, h') \<longrightarrow>
      v = Cast CircleShape_type c \<and> Kind (h' (ptr_addr v)) = Some CircleShapeKind)
   \<and> (\<forall>v h'. Rectangle c h = (Return v, h') \<longrightarrow>
      v = Cast RectangleShape_type c \<and> Kind (h' (ptr_addr v)) = Some RectangleShapeKind)"
  by (auto simp: Circle_eq Rectangle_eq Cast_def CircleShapeKind_def RectangleShapeKind_def
      split: option.splits if_splits)

theorem guarded_read_witness:
  "Circle (Ptr Shape_type 0) heap0 =
     (Panic (PanicString ''can't cast shape from Kind=nil to Kind=circle''), heap0)
   \<and> Rectangle (Ptr Shape_type 0) heap0 =
     (Panic (PanicString ''can't cast shape from Kind=nil to Kind=rectangle''), heap0)
   \<and> Rectangle (Ptr Shape_type 0) (heap0(0 := red_circle)) =
     (Panic (PanicString ''can't cast shape from Kind=circle to Kind=rectangle''), heap0(0 := red_circle))
   \<and> Circle (Ptr Shape_type 0) (heap0(0 := red_circle)) =
     (Return (Ptr CircleShape_type 0), heap0(0 := red_circle))"
proof -
  have nil: "Kind (heap0 (ptr_addr (Ptr Shape_type 0))) = None"
    by (simp add: heap0_def zero_shape_def)
  have circle: "Kind ((heap0(0 := red_circle)) (ptr_addr (Ptr Shape_type 0))) = Some CircleShapeKind"
    by (simp add: red_circle_def CircleShapeKind_def)
  have differs: "CircleShapeKind \<noteq> RectangleShapeKind"
    by (simp add: CircleShapeKind_def RectangleShapeKind_def)
  note at_nil = guarded_read [of heap0 "Ptr Shape_type 0"]
  note at_circle = guarded_read [of "heap0(0 := red_circle)" "Ptr Shape_type 0"]
  from at_nil nil
  have 1: "Circle (Ptr Shape_type 0) heap0 =
      (Panic (PanicString ''can't cast shape from Kind=nil to Kind=circle''), heap0)"
    and 2: "Rectangle (Ptr Shape_type 0) heap0 =
      (Panic (PanicString ''can't cast shape from Kind=nil to Kind=rectangle''), heap0)"
    by blast+
  from at_circle circle differs
  have "Rectangle (Ptr Shape_type 0) (heap0(0 := red_circle)) =
      (Panic (PanicString (''can't cast shape from Kind='' @ CircleShapeKind @ '' to Kind='' @ RectangleShapeKind)),
       heap0(0 := red_circle))"
    by blast
  then have 3: "Rectangle (Ptr Shape_type 0) (heap0(0 := red_circle)) =
      (Panic (PanicString ''can't cast shape from Kind=circle to Kind=rectangle''), heap0(0 := red_circle))"
    by (simp add: CircleShapeKind_def RectangleShapeKind_def)
  from at_circle circle
  have "Circle (Ptr Shape_type 0) (heap0(0 := red_circle)) =
      (Return (Cast CircleShape_type (Ptr Shape_type 0)), heap0(0 := red_circle))"
    by blast
  then have 4: "Circle (Ptr Shape_type 0) (heap0(0 := red_circle)) =
      (Return (Ptr CircleShape_type 0), heap0(0 := red_circle))"
    by (simp add: Cast_def)
  from 1 2 3 4 show ?thesis by blast
qed

text \<open>
  C6, as the claim states it, fails: a guarded read has no error result. The read of a
  record whose discriminator is nil ends in a panic.
\<close>

theorem guard_failure_is_panic:
  "Circle (Ptr Shape_type 0) heap0 =
     (Panic (PanicString ''can't cast shape from Kind=nil to Kind=circle''), heap0)"
  by (simp add: Circle_eq heap0_def zero_shape_def)

text \<open>
  C6, amended. A guard failure of \<^verbatim>\<open>Circle()\<close> or \<^verbatim>\<open>Rectangle()\<close> is a panic whose
  value is the message string naming the stored and the requested kind
  (\<^verbatim>\<open>can't cast shape from Kind=<stored> to Kind=<requested>\<close>, with \<^verbatim>\<open>nil\<close> for a
  discriminator that is not set), raised before anything is written. The call returns a
  view exactly when the stored discriminator is the requested tag, and that view is the
  cast to the requested type, so a failure never becomes a successful cast.
\<close>

theorem guard_failure_panics:
  "(Kind (h (ptr_addr c)) = None \<longrightarrow>
      Circle c h =
        (Panic (PanicString (''can't cast shape from Kind=nil to Kind='' @ CircleShapeKind)), h)
      \<and> Rectangle c h =
        (Panic (PanicString (''can't cast shape from Kind=nil to Kind='' @ RectangleShapeKind)), h))
   \<and> (\<forall>stored. Kind (h (ptr_addr c)) = Some stored \<and> stored \<noteq> CircleShapeKind \<longrightarrow>
      Circle c h =
        (Panic (PanicString
           (''can't cast shape from Kind='' @ stored @ '' to Kind='' @ CircleShapeKind)), h))
   \<and> (\<forall>stored. Kind (h (ptr_addr c)) = Some stored \<and> stored \<noteq> RectangleShapeKind \<longrightarrow>
      Rectangle c h =
        (Panic (PanicString
           (''can't cast shape from Kind='' @ stored @ '' to Kind='' @ RectangleShapeKind)), h))
   \<and> (Kind (h (ptr_addr c)) = Some CircleShapeKind \<longrightarrow>
      Circle c h = (Return (Cast CircleShape_type c), h))
   \<and> (Kind (h (ptr_addr c)) = Some RectangleShapeKind \<longrightarrow>
      Rectangle c h = (Return (Cast RectangleShape_type c), h))
   \<and> (\<forall>v h'. Circle c h = (Return v, h') \<longrightarrow>
      Kind (h (ptr_addr c)) = Some CircleShapeKind \<and> h' = h)
   \<and> (\<forall>v h'. Rectangle c h = (Return v, h') \<longrightarrow>
      Kind (h (ptr_addr c)) = Some RectangleShapeKind \<and> h' = h)"
  by (auto simp: Circle_eq Rectangle_eq Cast_def CircleShapeKind_def RectangleShapeKind_def
      split: option.splits if_splits)

theorem guard_failure_panics_witness:
  "Rectangle (Ptr Shape_type 0) heap0 =
     (Panic (PanicString ''can't cast shape from Kind=nil to Kind=rectangle''), heap0)
   \<and> Circle (Ptr Shape_type 0) (heap0(0 := green_rectangle)) =
     (Panic (PanicString ''can't cast shape from Kind=rectangle to Kind=circle''),
      heap0(0 := green_rectangle))
   \<and> Rectangle (Ptr Shape_type 0) (heap0(0 := green_rectangle)) =
     (Return (Ptr RectangleShape_type 0), heap0(0 := green_rectangle))"
proof -
  have nil: "Kind (heap0 (ptr_addr (Ptr Shape_type 0))) = None"
    by (simp add: heap0_def zero_shape_def)
  have rectangle:
    "Kind ((heap0(0 := green_rectangle)) (ptr_addr (Ptr Shape_type 0))) = Some RectangleShapeKind"
    by (simp add: green_rectangle_def RectangleShapeKind_def)
  have differs: "RectangleShapeKind \<noteq> CircleShapeKind"
    by (simp add: CircleShapeKind_def RectangleShapeKind_def)
  note at_nil = guard_failure_panics [of heap0 "Ptr Shape_type 0"]
  note at_rectangle = guard_failure_panics [of "heap0(0 := green_rectangle)" "Ptr Shape_type 0"]
  from at_nil nil
  have "Rectangle (Ptr Shape_type 0) heap0 =
      (Panic (PanicString (''can't cast shape from Kind=nil to Kind='' @ RectangleShapeKind)), heap0)"
    by blast
  then have 1: "Rectangle (Ptr Shape_type 0) heap0 =
      (Panic (PanicString ''can't cast shape from Kind=nil to Kind=rectangle''), heap0)"
    by (simp add: RectangleShapeKind_def)
  from at_rectangle rectangle differs
  have "Circle (Ptr Shape_type 0) (heap0(0 := green_rectangle)) =
      (Panic (PanicString
         (''can't cast shape from Kind='' @ RectangleShapeKind @ '' to Kind='' @ CircleShapeKind)),
       heap0(0 := green_rectangle))"
    by blast
  then have 2: "Circle (Ptr Shape_type 0) (heap0(0 := green_rectangle)) =
      (Panic (PanicString ''can't cast shape from Kind=rectangle to Kind=circle''),
       heap0(0 := green_rectangle))"
    by (simp add: CircleShapeKind_def RectangleShapeKind_def)
  from at_rectangle rectangle
  have "Rectangle (Ptr Shape_type 0) (heap0(0 := green_rectangle)) =
      (Return (Cast RectangleShape_type (Ptr Shape_type 0)), heap0(0 := green_rectangle))"
    by blast
  then have 3: "Rectangle (Ptr Shape_type 0) (heap0(0 := green_rectangle)) =
      (Return (Ptr RectangleShape_type 0), heap0(0 := green_rectangle))"
    by (simp add: Cast_def)
  from 1 2 3 show ?thesis by blast
qed

text \<open>
  C10. The casts and guarded reads \<^verbatim>\<open>Shape()\<close>, \<^verbatim>\<open>Circle()\<close>, \<^verbatim>\<open>Rectangle()\<close>,
  \<^verbatim>\<open>Json()\<close> (and the helpers \<^verbatim>\<open>caster()\<close>, \<^verbatim>\<open>json()\<close>) leave the whole heap as it
  was, whether they return or panic.
\<close>

theorem reads_keep_heap:
  "snd (Shape c h) = h \<and> snd (Circle c h) = h \<and> snd (Rectangle c h) = h
   \<and> snd (Json c h) = h \<and> snd (caster c h) = h \<and> snd (json c h) = h"
  by (simp add: Circle_eq Rectangle_eq go_defs cast_defs split: option.splits)

section \<open>The variant switch\<close>

lemma ZeroNonKindFields_Shape:
  "ZeroNonKindFields cc (Ptr Shape_type a) h =
     (Return (), h(ptr_addr cc := (h (ptr_addr cc))\<lparr>Radius := None, Width := None, Height := None\<rparr>))"
  by (simp add: ZeroNonKindFields_def Json_def Cast_def go_defs Shape_type_def shape_type_def
      IsExported_def pkg_def zero_json_field_def zero_field_def)

lemma SetCircle_eq:
  "SetCircle c h =
     (case Kind (h (ptr_addr c)) of
        None \<Rightarrow> (Panic (RuntimeError NilDereference), h)
      | Some _ \<Rightarrow>
          (Return (Ptr CircleShape_type (ptr_addr c)),
           h(ptr_addr c := (h (ptr_addr c))
              \<lparr>Kind := Some CircleShapeKind, Radius := None, Width := None, Height := None\<rparr>)))"
  by (simp add: SetCircle_def store_Kind_def ZeroNonKindFields_Shape Circle_eq go_defs cast_defs
      split: option.splits)

lemma SetRectangle_eq:
  "SetRectangle c h =
     (case Kind (h (ptr_addr c)) of
        None \<Rightarrow> (Panic (RuntimeError NilDereference), h)
      | Some _ \<Rightarrow>
          (Return (Ptr RectangleShape_type (ptr_addr c)),
           h(ptr_addr c := (h (ptr_addr c))
              \<lparr>Kind := Some RectangleShapeKind, Radius := None, Width := None, Height := None\<rparr>)))"
  by (simp add: SetRectangle_def store_Kind_def ZeroNonKindFields_Shape Rectangle_eq go_defs
      cast_defs split: option.splits)

text \<open>
  What the switch does keep and clear, for a record whose discriminator is set: the
  discriminator becomes the target's tag, the fields the target does not own become nil,
  \<^verbatim>\<open>Color\<close> and every other record stay as they were, and the result is the receiver's
  address read at the target's type.
\<close>

lemma SetCircle_effect:
  assumes "Kind (h (ptr_addr c)) = Some k"
  shows "\<exists>h'. SetCircle c h = (Return (Cast CircleShape_type c), h')
     \<and> Kind (h' (ptr_addr c)) = Some CircleShapeKind
     \<and> Width (h' (ptr_addr c)) = None \<and> Height (h' (ptr_addr c)) = None
     \<and> Color (h' (ptr_addr c)) = Color (h (ptr_addr c))
     \<and> (\<forall>a. a \<noteq> ptr_addr c \<longrightarrow> h' a = h a)"
  using assms by (simp add: SetCircle_eq Cast_def)

lemma SetRectangle_effect:
  assumes "Kind (h (ptr_addr c)) = Some k"
  shows "\<exists>h'. SetRectangle c h = (Return (Cast RectangleShape_type c), h')
     \<and> Kind (h' (ptr_addr c)) = Some RectangleShapeKind
     \<and> Radius (h' (ptr_addr c)) = None
     \<and> Color (h' (ptr_addr c)) = Color (h (ptr_addr c))
     \<and> (\<forall>a. a \<noteq> ptr_addr c \<longrightarrow> h' a = h a)"
  using assms by (simp add: SetRectangle_eq Cast_def)

text \<open>
  C1 at a circle that is switched to circle: \<^verbatim>\<open>SetCircle\<close> hands the common view
  \<^verbatim>\<open>*Shape\<close> to \<^verbatim>\<open>ZeroNonKindFields\<close>, whose unexported positions are all three
  variant fields, so the radius the circle owns is cleared with the rest.
\<close>

theorem SetCircle_clears_owned_radius:
  "SetCircle (Ptr CircleShape_type 0) (heap0(0 := red_circle)) =
     (Return (Ptr CircleShape_type 0), heap0(0 := red_circle\<lparr>Radius := None\<rparr>))"
  by (simp add: SetCircle_eq red_circle_def CircleShapeKind_def)

text \<open>
  C9. On a record whose \<^verbatim>\<open>Kind\<close> is nil, \<^verbatim>\<open>SetCircle\<close> and \<^verbatim>\<open>SetRectangle\<close> panic
  with a nil dereference at the store \<^verbatim>\<open>*s.Kind = tag\<close>, and nothing is written: the
  discriminator stays nil.
\<close>

theorem switch_nil_kind:
  "Kind (h (ptr_addr c)) = None \<Longrightarrow>
     SetCircle c h = (Panic (RuntimeError NilDereference), h)
     \<and> SetRectangle c h = (Panic (RuntimeError NilDereference), h)"
  by (simp add: SetCircle_eq SetRectangle_eq)

theorem switch_nil_kind_witness:
  "Kind (heap0 (ptr_addr (Ptr Shape_type 0))) = None
   \<and> SetCircle (Ptr Shape_type 0) heap0 = (Panic (RuntimeError NilDereference), heap0)
   \<and> SetRectangle (Ptr Shape_type 0) heap0 = (Panic (RuntimeError NilDereference), heap0)"
proof -
  have nil: "Kind (heap0 (ptr_addr (Ptr Shape_type 0))) = None"
    by (simp add: heap0_def zero_shape_def)
  from switch_nil_kind [of heap0 "Ptr Shape_type 0", OF nil] nil show ?thesis by blast
qed

section \<open>The layout validator: correctness\<close>








text \<open>
  Outside these hypotheses the validator panics inside package reflect, whatever
  \<^verbatim>\<open>panicOnError\<close> is: on a canonical type that is no struct or has no field.
\<close>

lemma ValidateStructFields_no_first_field:
  "struct_fields mainStruct = None \<Longrightarrow>
     ValidateStructFields conv c mainStruct panicOnError structs = Panic (RuntimeError NotAStruct)"
  "struct_fields mainStruct = Some [] \<Longrightarrow>
     ValidateStructFields conv c mainStruct panicOnError structs =
       Panic (RuntimeError FieldIndexOutOfRange)"
  by (simp_all add: ValidateStructFields_def validateStructFields_def out_bind_def Field_def)




section \<open>The JSON adapter: decoding\<close>

lemma sint_of_int_64:
  "- (2 ^ 63) \<le> n \<Longrightarrow> n < 2 ^ 63 \<Longrightarrow> sint (word_of_int n :: 64 word) = n"
  by (simp add: sint_sbintrunc' signed_take_bit_int_eq_self)

lemma sint_bounds_64: "- (2 ^ 63) \<le> sint (w :: 64 word) \<and> sint w < 2 ^ 63"
  using sint_ge [of w] sint_lt [of w] by simp

lemma map_of_json_keys:
  "map_of json_keys k = Some f \<Longrightarrow> f \<in> {1, 2, 3, 4, 5}"
  by (auto simp: json_keys_def split: if_splits)

lemma json_keys_inj:
  "map_of json_keys k = Some f \<Longrightarrow> map_of json_keys k' = Some f \<Longrightarrow> k' = k"
  by (auto simp: json_keys_def split: if_splits)

lemma field_json_decode_field:
  assumes "f \<in> {1, 2, 3, 4, 5}" and "f' \<in> {1, 2, 3, 4, 5}"
    and "decode_field f v s = Some s'"
  shows "field_json f' s' =
     (if f' = f then (if v = JNull then None else Some v) else field_json f' s)"
  using assms
  by (cases v)
     (auto simp: decode_field_def field_json_def decode_string_def decode_int_def
        sint_of_int_64 split: if_splits)

lemma decode_field_ok:
  assumes "value_ok f v"
  shows "\<exists>s'. decode_field f v s = Some s'"
  using assms
  by (auto simp: value_ok_def decode_field_def split: if_splits)

lemma UnmarshalJSON_object:
  "UnmarshalJSON c (JObject ms) h = decode_members (Cast shape_type c) ms h"
  by (simp add: UnmarshalJSON_def Json_def go_defs)

lemma MarshalJSON_eq:
  "MarshalJSON c h = (Return (encode_shape (h (ptr_addr c))), h)"
  by (simp add: MarshalJSON_def Json_def Cast_def go_defs)

text \<open>Members with unknown keys can be dropped from the object: they change nothing.\<close>

lemma decode_members_known:
  "decode_members j ms h =
     decode_members j (filter (\<lambda>m. fst m \<in> fst ` set json_keys) ms) h"
proof (induction ms arbitrary: h)
  case Nil
  show ?case by simp
next
  case (Cons m ms)
  obtain k v where m: "m = (k, v)" by (cases m)
  show ?case
  proof (cases "map_of json_keys k")
    case None
    then have "k \<notin> fst ` set json_keys" by (simp add: map_of_eq_None_iff)
    with None Cons.IH [of h] show ?thesis by (simp add: m)
  next
    case (Some f)
    then have known: "k \<in> fst ` set json_keys" by (metis map_of_eq_None_iff option.distinct(1))
    show ?thesis
    proof (cases "decode_field f v (h (ptr_addr j))")
      case None
      with Some known show ?thesis by (simp add: m)
    next
      case (Some s1)
      have "decode_members j (m # ms) h = decode_members j ms (h(ptr_addr j := s1))"
        using \<open>map_of json_keys k = Some f\<close> Some by (simp add: m)
      also have "\<dots> = decode_members j (filter (\<lambda>m. fst m \<in> fst ` set json_keys) ms)
          (h(ptr_addr j := s1))"
        by (rule Cons.IH)
      also have "\<dots> = decode_members j (filter (\<lambda>m. fst m \<in> fst ` set json_keys) (m # ms)) h"
        using \<open>map_of json_keys k = Some f\<close> Some known by (simp add: m)
      finally show ?thesis .
    qed
  qed
qed

lemma map_of_rev_Cons:
  "map_of (rev ((k, v) # ms)) k' =
     (case map_of (rev ms) k' of
        Some x \<Rightarrow> Some x
      | None \<Rightarrow> if k' = k then Some v else None)"
  by (simp add: map_add_def split: option.splits)

text \<open>
  When every member is acceptable the decoder ends without error, and each field holds
  what the last member with its key gave it, or what it held before when the object has
  no such member.
\<close>

lemma decode_members_effect:
  assumes "\<forall>m\<in>set ms. member_ok m"
  shows "\<exists>s'. decode_members j ms h = (Return None, h(ptr_addr j := s'))
     \<and> (\<forall>k f. map_of json_keys k = Some f \<longrightarrow>
          field_json f s' =
            (case map_of (rev ms) k of
               None \<Rightarrow> field_json f (h (ptr_addr j))
             | Some v \<Rightarrow> if v = JNull then None else Some v))"
  using assms
proof (induction ms arbitrary: h)
  case Nil
  have "decode_members j [] h = (Return None, h(ptr_addr j := h (ptr_addr j)))"
    by simp
  then show ?case by (intro exI [of _ "h (ptr_addr j)"]) simp
next
  case (Cons m ms)
  obtain k v where m: "m = (k, v)" by (cases m)
  from Cons.prems have rest: "\<forall>m\<in>set ms. member_ok m" by simp
  show ?case
  proof (cases "map_of json_keys k")
    case None
    from Cons.IH [OF rest, of h] obtain s' where both:
      "decode_members j ms h = (Return None, h(ptr_addr j := s'))
       \<and> (\<forall>k f. map_of json_keys k = Some f \<longrightarrow>
          field_json f s' =
            (case map_of (rev ms) k of
               None \<Rightarrow> field_json f (h (ptr_addr j))
             | Some v \<Rightarrow> if v = JNull then None else Some v))" ..
    note run = both [THEN conjunct1] and eff = both [THEN conjunct2, rule_format]
    have key_eff: "field_json f' s' =
            (case map_of (rev (m # ms)) k' of
               None \<Rightarrow> field_json f' (h (ptr_addr j))
             | Some v \<Rightarrow> if v = JNull then None else Some v)"
      if k': "map_of json_keys k' = Some f'" for k' f'
    proof -
      from k' None have "k' \<noteq> k" by auto
      then have "map_of (rev (m # ms)) k' = map_of (rev ms) k'"
        unfolding m map_of_rev_Cons by (simp split: option.splits)
      with eff [OF k'] show ?thesis by simp
    qed
    have run': "decode_members j (m # ms) h = (Return None, h(ptr_addr j := s'))"
      using run None by (simp add: m)
    have eff': "\<forall>k f. map_of json_keys k = Some f \<longrightarrow>
          field_json f s' =
            (case map_of (rev (m # ms)) k of
               None \<Rightarrow> field_json f (h (ptr_addr j))
             | Some v \<Rightarrow> if v = JNull then None else Some v)"
      by (intro allI impI) (rule key_eff)
    from run' eff' show ?thesis
      by (intro exI [of _ s'] conjI) assumption+
  next
    case (Some f)
    with Cons.prems have "value_ok f v" by (simp add: m member_ok_def)
    then obtain s1 where s1: "decode_field f v (h (ptr_addr j)) = Some s1"
      using decode_field_ok by blast
    define h1 where "h1 = h(ptr_addr j := s1)"
    from Cons.IH [OF rest, of h1] obtain s' where both:
      "decode_members j ms h1 = (Return None, h1(ptr_addr j := s'))
       \<and> (\<forall>k f. map_of json_keys k = Some f \<longrightarrow>
          field_json f s' =
            (case map_of (rev ms) k of
               None \<Rightarrow> field_json f (h1 (ptr_addr j))
             | Some v \<Rightarrow> if v = JNull then None else Some v))" ..
    note run = both [THEN conjunct1] and eff = both [THEN conjunct2, rule_format]
    have h1_at: "h1 (ptr_addr j) = s1" and h1_upd: "h1(ptr_addr j := s') = h(ptr_addr j := s')"
      by (simp_all add: h1_def)
    have f: "f \<in> {1, 2, 3, 4, 5}" using Some by (rule map_of_json_keys)
    have key_eff: "field_json f' s' =
            (case map_of (rev (m # ms)) k' of
               None \<Rightarrow> field_json f' (h (ptr_addr j))
             | Some v \<Rightarrow> if v = JNull then None else Some v)"
      if k': "map_of json_keys k' = Some f'" for k' f'
    proof -
      have f': "f' \<in> {1, 2, 3, 4, 5}" using k' by (rule map_of_json_keys)
      have first: "field_json f' s1 =
          (if f' = f then (if v = JNull then None else Some v) else field_json f' (h (ptr_addr j)))"
        using field_json_decode_field [OF f f' s1] .
      have same: "f' = f \<longleftrightarrow> k' = k"
      proof
        assume "f' = f"
        with k' Some show "k' = k" by (simp add: json_keys_inj)
      next
        assume "k' = k"
        with k' Some show "f' = f" by simp
      qed
      show ?thesis
      proof (cases "map_of (rev ms) k'")
        case None
        then have "field_json f' s' = field_json f' s1"
          using eff [OF k'] h1_at by simp
        moreover have "map_of (rev (m # ms)) k' = (if k' = k then Some v else None)"
          unfolding m map_of_rev_Cons using None by simp
        ultimately show ?thesis using first same by simp
      next
        case (Some x)
        then have "field_json f' s' = (if x = JNull then None else Some x)"
          using eff [OF k'] by simp
        moreover have "map_of (rev (m # ms)) k' = Some x"
          unfolding m map_of_rev_Cons using Some by simp
        ultimately show ?thesis by simp
      qed
    qed
    have "decode_members j (m # ms) h = decode_members j ms h1"
      using Some s1 by (simp add: m h1_def)
    with run h1_upd
    have run': "decode_members j (m # ms) h = (Return None, h(ptr_addr j := s'))"
      by (simp only:)
    have eff': "\<forall>k f. map_of json_keys k = Some f \<longrightarrow>
          field_json f s' =
            (case map_of (rev (m # ms)) k of
               None \<Rightarrow> field_json f (h (ptr_addr j))
             | Some v \<Rightarrow> if v = JNull then None else Some v)"
      by (intro allI impI) (rule key_eff)
    from run' eff' show ?thesis
      by (intro exI [of _ s'] conjI) assumption+
  qed
qed

text \<open>
  C8. For every JSON object whose members are acceptable (an unknown key with any value,
  a known key with a value of its field's JSON type), \<^verbatim>\<open>UnmarshalJSON\<close> ends without
  error; the members with unknown keys change nothing; every field named in the object
  holds the value of the last member with its key and every other field is left as it
  was, so nothing is scrubbed; in particular a \<^verbatim>\<open>kind\<close> member sets the discriminator
  to exactly its string, whatever variant fields the object carries.
\<close>

theorem unmarshal_sets_only_named_fields:
  assumes "\<forall>m\<in>set ms. member_ok m"
  shows "\<exists>s'. UnmarshalJSON c (JObject ms) h = (Return None, h(ptr_addr c := s'))
     \<and> UnmarshalJSON c (JObject ms) h =
         UnmarshalJSON c (JObject (filter (\<lambda>m. fst m \<in> fst ` set json_keys) ms)) h
     \<and> (\<forall>k f. map_of json_keys k = Some f \<longrightarrow>
          field_json f s' =
            (case map_of (rev ms) k of
               None \<Rightarrow> field_json f (h (ptr_addr c))
             | Some v \<Rightarrow> if v = JNull then None else Some v))
     \<and> (\<forall>kind. map_of (rev ms) ''kind'' = Some (JString kind) \<longrightarrow> Kind s' = Some kind)"
proof -
  from decode_members_effect [OF assms, of "Cast shape_type c" h] obtain s' where both:
    "decode_members (Cast shape_type c) ms h =
        (Return None, h(ptr_addr (Cast shape_type c) := s'))
     \<and> (\<forall>k f. map_of json_keys k = Some f \<longrightarrow>
          field_json f s' =
            (case map_of (rev ms) k of
               None \<Rightarrow> field_json f (h (ptr_addr (Cast shape_type c)))
             | Some v \<Rightarrow> if v = JNull then None else Some v))" ..
  have addr: "ptr_addr (Cast shape_type c) = ptr_addr c" by (simp add: Cast_def)
  have run: "UnmarshalJSON c (JObject ms) h = (Return None, h(ptr_addr c := s'))"
    using both [THEN conjunct1] unfolding UnmarshalJSON_object addr .
  have eff: "\<forall>k f. map_of json_keys k = Some f \<longrightarrow>
          field_json f s' =
            (case map_of (rev ms) k of
               None \<Rightarrow> field_json f (h (ptr_addr c))
             | Some v \<Rightarrow> if v = JNull then None else Some v)"
    using both [THEN conjunct2] unfolding addr .
  have known: "UnmarshalJSON c (JObject ms) h =
         UnmarshalJSON c (JObject (filter (\<lambda>m. fst m \<in> fst ` set json_keys) ms)) h"
    unfolding UnmarshalJSON_object by (rule decode_members_known)
  have kind_key: "map_of json_keys ''kind'' = Some 2" by (simp add: json_keys_def)
  have kind: "\<forall>kind. map_of (rev ms) ''kind'' = Some (JString kind) \<longrightarrow> Kind s' = Some kind"
  proof (intro allI impI)
    fix kind assume "map_of (rev ms) ''kind'' = Some (JString kind)"
    with eff [rule_format, OF kind_key] have "field_json 2 s' = Some (JString kind)" by simp
    then show "Kind s' = Some kind" by (auto simp: field_json_def)
  qed
  from run known eff kind show ?thesis
    by (intro exI [of _ s'] conjI) assumption+
qed

theorem unmarshal_sets_only_named_fields_witness:
  "member_ok (''kind'', JString ''rectangle'') \<and> member_ok (''width'', JNumber 5)
   \<and> member_ok (''sides'', JArray [JNumber 4])
   \<and> (\<exists>s'. UnmarshalJSON (Ptr Shape_type 0)
         (JObject [(''kind'', JString ''rectangle''), (''width'', JNumber 5),
            (''sides'', JArray [JNumber 4])]) (heap0(0 := red_circle)) =
         (Return None, heap0(0 := s'))
       \<and> Kind s' = Some ''rectangle''
       \<and> field_json 1 s' = Some (JString ''red'')
       \<and> field_json 3 s' = Some (JNumber 1)
       \<and> field_json 4 s' = Some (JNumber 5))"
proof -
  let ?ms = "[(''kind'', JString ''rectangle''), (''width'', JNumber 5),
            (''sides'', JArray [JNumber 4])]"
  let ?h = "heap0(0 := red_circle)"
  have ok: "member_ok (''kind'', JString ''rectangle'')" "member_ok (''width'', JNumber 5)"
    "member_ok (''sides'', JArray [JNumber 4])"
    by (simp_all add: member_ok_def json_keys_def value_ok_def decode_string_def decode_int_def)
  then have all: "\<forall>m\<in>set ?ms. member_ok m" by simp
  from unmarshal_sets_only_named_fields [OF all, of "Ptr Shape_type 0" ?h]
  obtain s' where
    run: "UnmarshalJSON (Ptr Shape_type 0) (JObject ?ms) ?h =
        (Return None, ?h(ptr_addr (Ptr Shape_type 0) := s'))"
    and eff: "\<forall>k f. map_of json_keys k = Some f \<longrightarrow>
          field_json f s' =
            (case map_of (rev ?ms) k of
               None \<Rightarrow> field_json f (?h (ptr_addr (Ptr Shape_type 0)))
             | Some v \<Rightarrow> if v = JNull then None else Some v)"
    and kind: "\<forall>kind. map_of (rev ?ms) ''kind'' = Some (JString kind) \<longrightarrow> Kind s' = Some kind"
    by blast
  have keys: "map_of json_keys ''color'' = Some 1" "map_of json_keys ''radius'' = Some 3"
    "map_of json_keys ''width'' = Some 4"
    by (simp_all add: json_keys_def)
  have 1: "UnmarshalJSON (Ptr Shape_type 0) (JObject ?ms) ?h = (Return None, heap0(0 := s'))"
    using run by simp
  have 2: "Kind s' = Some ''rectangle''"
    using kind by simp
  have 3: "field_json 1 s' = Some (JString ''red'')"
    using eff [rule_format, OF keys(1)] by (simp add: field_json_def red_circle_def)
  have 4: "field_json 3 s' = Some (JNumber 1)"
    using eff [rule_format, OF keys(2)] by (simp add: field_json_def red_circle_def)
  have 5: "field_json 4 s' = Some (JNumber 5)"
    using eff [rule_format, OF keys(3)] by simp
  from ok 1 2 3 4 5 show ?thesis by blast
qed

section \<open>The JSON adapter: round trip\<close>

lemma decode_encode:
  assumes "h b = zero_shape"
  shows "UnmarshalJSON (Ptr shape_type b) (encode_shape s) h = (Return None, h(b := s))"
proof -
  obtain c k r w t where s: "s = \<lparr>Color = c, Kind = k, Radius = r, Width = w, Height = t\<rparr>"
    by (cases s) auto
  have lo: "- 9223372036854775808 \<le> sint x" and hi: "sint x < 9223372036854775808"
    for x :: "64 word"
    using sint_bounds_64 [of x] by simp_all
  have idem: "h(b := \<lparr>Color = None, Kind = None, Radius = None, Width = None, Height = None\<rparr>) = h"
    using assms by (simp add: zero_shape_def fun_upd_idem)
  show ?thesis
    unfolding s
    by (cases c; cases k; cases r; cases w; cases t)
       (simp_all add: encode_shape_def json_keys_def List.map_filter_simps field_json_def
          UnmarshalJSON_object Cast_def decode_field_def decode_string_def decode_int_def
          lo hi idem assms zero_shape_def)
qed

text \<open>
  C5. Take a record populated as the circle or the rectangle variant: its discriminator
  is the variant's tag and the positions the variant does not own are nil. Marshalling
  it and unmarshalling the result into a fresh (zero) record gives a record equal to it
  field by field: the discriminator is the variant's tag, each position the variant owns
  holds what it held, and each position it does not own is nil.
\<close>

theorem marshal_unmarshal_round_trip:
  assumes variant: "variant = CircleShape_type \<and> tag = CircleShapeKind
      \<or> variant = RectangleShape_type \<and> tag = RectangleShapeKind"
    and populated: "populated_as variant tag (h (ptr_addr c))"
    and fresh: "h b = zero_shape"
  shows "\<exists>doc s'. MarshalJSON c h = (Return doc, h)
     \<and> UnmarshalJSON (Ptr shape_type b) doc h = (Return None, h(b := s'))
     \<and> Kind s' = Some tag
     \<and> s' = h (ptr_addr c)
     \<and> list_all (\<lambda>f. if owns variant f then field_json f s' = field_json f (h (ptr_addr c))
                      else field_json f s' = None) [1, 2, 3, 4, 5]"
proof -
  let ?s = "h (ptr_addr c)"
  have marshal: "MarshalJSON c h = (Return (encode_shape ?s), h)"
    by (rule MarshalJSON_eq)
  have unmarshal: "UnmarshalJSON (Ptr shape_type b) (encode_shape ?s) h = (Return None, h(b := ?s))"
    using fresh by (rule decode_encode)
  have kind: "Kind ?s = Some tag"
    using populated by (simp add: populated_as_def)
  have positions: "list_all (\<lambda>f. if owns variant f then field_json f ?s = field_json f ?s
                      else field_json f ?s = None) [1, 2, 3, 4, 5]"
    using populated by (auto simp: populated_as_def)
  from marshal unmarshal kind positions show ?thesis
    by (intro exI [of _ "encode_shape ?s"] exI [of _ ?s] conjI refl) assumption+
qed

lemma populated_red_circle: "populated_as CircleShape_type CircleShapeKind red_circle"
  by (simp add: populated_as_def owns_def CircleShape_type_def IsExported_def pkg_def
      red_circle_def CircleShapeKind_def field_json_def)

lemma encode_red_circle:
  "encode_shape red_circle =
     JObject [(''color'', JString ''red''), (''kind'', JString ''circle''), (''radius'', JNumber 1)]"
  by (simp add: encode_shape_def json_keys_def List.map_filter_simps field_json_def red_circle_def)

theorem marshal_unmarshal_round_trip_witness:
  "MarshalJSON (Ptr CircleShape_type 0) (heap0(0 := red_circle)) =
     (Return (JObject [(''color'', JString ''red''), (''kind'', JString ''circle''),
        (''radius'', JNumber 1)]), heap0(0 := red_circle))
   \<and> UnmarshalJSON (Ptr shape_type 1)
       (JObject [(''color'', JString ''red''), (''kind'', JString ''circle''),
          (''radius'', JNumber 1)]) (heap0(0 := red_circle)) =
     (Return None, heap0(0 := red_circle, 1 := red_circle))"
proof -
  let ?h = "heap0(0 := red_circle)"
  have variant: "CircleShape_type = CircleShape_type \<and> CircleShapeKind = CircleShapeKind
      \<or> CircleShape_type = RectangleShape_type \<and> CircleShapeKind = RectangleShapeKind"
    by simp
  have populated: "populated_as CircleShape_type CircleShapeKind (?h (ptr_addr (Ptr CircleShape_type 0)))"
    using populated_red_circle by simp
  have fresh: "?h 1 = zero_shape" by (simp add: heap0_def)
  from marshal_unmarshal_round_trip [OF variant populated fresh]
  obtain doc s' where
    m: "MarshalJSON (Ptr CircleShape_type 0) ?h = (Return doc, ?h)"
    and u: "UnmarshalJSON (Ptr shape_type 1) doc ?h = (Return None, ?h(1 := s'))"
    and s': "s' = ?h (ptr_addr (Ptr CircleShape_type 0))"
    by blast
  have doc: "doc = JObject [(''color'', JString ''red''), (''kind'', JString ''circle''),
        (''radius'', JNumber 1)]"
    using m by (simp add: MarshalJSON_eq encode_red_circle)
  have "s' = red_circle" using s' by simp
  with m u doc show ?thesis by simp
qed

section \<open>The end-to-end scenario, step by step\<close>

lemma parse_wire_circle:
  "parse_json wire_circle =
     Some (JObject [(''kind'', JString ''circle''), (''color'', JString ''red''),
       (''radius'', JNumber 1)])"
  by code_simp

lemma decode_wire_circle:
  "UnmarshalJSON (Ptr shape_type 0)
     (JObject [(''kind'', JString ''circle''), (''color'', JString ''red''),
       (''radius'', JNumber 1)]) heap0 = (Return None, heap0(0 := red_circle))"
  by (simp add: UnmarshalJSON_object Cast_def json_keys_def decode_field_def decode_string_def
      decode_int_def heap0_def zero_shape_def red_circle_def)

lemma switch_red_circle:
  "SetRectangle (Ptr shape_type 0) (heap0(0 := red_circle)) =
     (Return (Ptr RectangleShape_type 0), heap0(0 := switched))"
  by (simp add: SetRectangle_eq red_circle_def switched_def RectangleShapeKind_def)

lemma encode_resized:
  "encode_shape resized =
     JObject [(''color'', JString ''red''), (''kind'', JString ''rectangle''),
       (''width'', JNumber 10), (''height'', JNumber 20)]"
  by (simp add: encode_shape_def json_keys_def List.map_filter_simps field_json_def resized_def
      switched_def)

lemma render_resized:
  "render (JObject [(''color'', JString ''red''), (''kind'', JString ''rectangle''),
       (''width'', JNumber 10), (''height'', JNumber 20)]) = wire_color_first"
  by code_simp

lemma wire_differs: "wire_color_first \<noteq> wire_kind_first"
  by (simp add: wire_color_first_def wire_kind_first_def)

lemma marshal_resized:
  "MarshalJSON (Ptr RectangleShape_type 0) (heap0(0 := resized)) =
     (Return (encode_shape resized), heap0(0 := resized))"
  by (simp add: MarshalJSON_eq)

lemma render_encode_resized: "render (encode_shape resized) = wire_color_first"
  by (simp only: encode_resized render_resized)

text \<open>
  C3, as the claim states it, fails at its last step: the text that \<^verbatim>\<open>MarshalJSON\<close>
  gives for the resized rectangle is not the text with \<^verbatim>\<open>kind\<close> first.
\<close>

theorem scenario_emits_kind_first_fails:
  "MarshalJSON (Ptr RectangleShape_type 0) (heap0(0 := resized)) =
     (Return (encode_shape resized), heap0(0 := resized))
   \<and> render (encode_shape resized) \<noteq> wire_kind_first"
proof
  show "MarshalJSON (Ptr RectangleShape_type 0) (heap0(0 := resized)) =
     (Return (encode_shape resized), heap0(0 := resized))"
    by (rule marshal_resized)
  show "render (encode_shape resized) \<noteq> wire_kind_first"
    unfolding render_encode_resized by (rule wire_differs)
qed

text \<open>
  C3, amended. Decoding the circle text into a zero record gives discriminator circle,
  colour red, radius 1 and no width or height; \<^verbatim>\<open>SetRectangle\<close> then gives
  discriminator rectangle, the colour kept, and radius, width and height nil; after
  width 10 and height 20 are assigned the encoding is the object with the keys in the
  declaration order of \<^verbatim>\<open>shape\<close>: colour, kind, width, height, and no radius.
\<close>

theorem scenario_emits_color_first:
  "parse_json wire_circle =
     Some (JObject [(''kind'', JString ''circle''), (''color'', JString ''red''),
       (''radius'', JNumber 1)])
   \<and> UnmarshalJSON (Ptr shape_type 0)
       (JObject [(''kind'', JString ''circle''), (''color'', JString ''red''),
         (''radius'', JNumber 1)]) heap0 = (Return None, heap0(0 := red_circle))
   \<and> SetRectangle (Ptr shape_type 0) (heap0(0 := red_circle)) =
       (Return (Ptr RectangleShape_type 0), heap0(0 := switched))
   \<and> MarshalJSON (Ptr RectangleShape_type 0) (heap0(0 := resized)) =
       (Return (encode_shape resized), heap0(0 := resized))
   \<and> render (encode_shape resized) = wire_color_first"
  by (intro conjI parse_wire_circle decode_wire_circle switch_red_circle marshal_resized
      render_encode_resized)

end
